theory Spec2Isabelle
  imports Main
begin

section \<open>The example script stream_mapping_mono_input_tracks.py\<close>

text \<open>
  The script builds request objects, sends them to the encoding service through the SDK
  client and then polls the status of the encoding. The embedding keeps the script's
  functions and their order of effects. The service is a collaborator outside the
  script: what it answers is a parameter of the model (\<open>remote\<close>), and every call the
  script makes is appended to a trace kept in the state (\<open>world\<close>).
\<close>

subsection \<open>SDK enumerations\<close>

text \<open>
  The enumerations belong to the SDK, which is imported by the script. Each datatype
  lists the members the script names (for \<open>Status\<close>, also the other states the
  description of the job lifecycle names). Where the script names a single member, a
  constructor \<open>OTHER_...\<close> stands for the members of the SDK enumeration that the
  script never uses, so that the type is not a singleton. Constructors are global in
  HOL, hence the prefix \<open>MSG_\<close> on the message types.
\<close>

datatype AudioMixChannelType =
  FRONT_LEFT | FRONT_RIGHT | CENTER | LOW_FREQUENCY | BACK_LEFT | BACK_RIGHT

datatype AudioMixInputChannelLayout = CL_STEREO | CL_5_1_BACK

datatype AudioMixSourceChannelType = CHANNEL_NUMBER | OTHER_SOURCE_CHANNEL_TYPE

datatype DolbyDigitalChannelLayout = CL_5_1 | OTHER_DOLBY_DIGITAL_LAYOUT

datatype PresetConfiguration = VOD_STANDARD | OTHER_PRESET

datatype StreamSelectionMode = AUTO | AUDIO_RELATIVE

datatype StreamMode = STANDARD | OTHER_STREAM_MODE

datatype AclPermission = PUBLIC_READ | OTHER_PERMISSION

datatype Status = CREATED | QUEUED | RUNNING | FINISHED | ERROR

datatype MessageType = MSG_INFO | MSG_ERROR | OTHER_MESSAGE_TYPE

subsection \<open>Request and response objects\<close>

type_synonym ident = string

text \<open>The helper class of the script (lines 58-76): two read-only properties.\<close>

record ChannelMappingConfig =
  output_channel_type :: AudioMixChannelType
  source_channel_number :: int

record Encoding =
  encoding_name :: string
  encoding_description :: string

record HttpInput =
  host :: string

record S3Output =
  bucket_name :: string
  access_key :: string
  secret_key :: string

record H264VideoConfiguration =
  h264_name :: string
  h264_height :: int
  h264_bitrate :: int
  h264_preset_configuration :: PresetConfiguration

record AacAudioConfiguration =
  aac_name :: string
  aac_bitrate :: int

record DolbyDigitalAudioConfiguration =
  dd_name :: string
  dd_bitrate :: int
  dd_channel_layout :: DolbyDigitalChannelLayout

text \<open>\<open>position\<close> is absent (\<open>None\<close>) when the constructor call does not pass it.\<close>

record IngestInputStream =
  input_id :: ident
  input_path :: string
  selection_mode :: StreamSelectionMode
  position :: "int option"

record AudioMixInputStreamSourceChannel =
  source_type :: AudioMixSourceChannelType
  channel_number :: int

record AudioMixInputStreamChannel =
  input_stream_id :: ident
  mix_output_channel_type :: AudioMixChannelType
  source_channels :: "AudioMixInputStreamSourceChannel list"

record AudioMixInputStream =
  channel_layout :: AudioMixInputChannelLayout
  audio_mix_channels :: "AudioMixInputStreamChannel list"

record StreamInput =
  stream_input_stream_id :: ident

record Stream =
  input_streams :: "StreamInput list"
  codec_config_id :: ident
  mode :: StreamMode

record AclEntry =
  permission :: AclPermission

record EncodingOutput =
  output_path :: string
  output_id :: ident
  acl :: "AclEntry list"

record MuxingStream =
  stream_id :: ident

record Mp4Muxing =
  outputs :: "EncodingOutput list"
  filename :: string
  streams :: "MuxingStream list"

record Message =
  msg_type :: MessageType
  msg_text :: string

record Task =
  status :: Status
  progress :: int
  messages :: "Message list"

subsection \<open>Configuration and the example name\<close>

text \<open>
  The values the script reads from \<open>config_provider\<close>. The provider is not part of the
  file; its answers are parameters.
\<close>

record config =
  http_input_host :: string
  http_input_file_path_with_multiple_mono_audio_tracks :: string
  s3_output_bucket_name :: string
  s3_output_access_key :: string
  s3_output_secret_key :: string
  s3_output_base_path :: string

text \<open>
  Line 50. The argument is the text of \<open>datetime.now().isoformat(timespec='seconds')\<close>
  at import time.
\<close>

definition EXAMPLE_NAME :: "string \<Rightarrow> string" where
  "EXAMPLE_NAME now = ''StreamMappingMonoInputTracks-'' @ now"

subsection \<open>Joining paths\<close>

text \<open>
  \<open>os.path.join\<close> of the standard library, in its POSIX form (\<open>posixpath.join\<close>):
  \<^verbatim>\<open>
  path = a
  for b in p:
      if b.startswith(sep):   path = b
      elif not path or path.endswith(sep):   path += b
      else:   path += sep + b
  return path
  \<close>
  A component that starts with the separator discards everything joined before it.
\<close>

definition sep :: string where
  "sep = ''/''"

definition startswith :: "string \<Rightarrow> string \<Rightarrow> bool" where
  "startswith s p = (take (length p) s = p)"

definition endswith :: "string \<Rightarrow> string \<Rightarrow> bool" where
  "endswith s p = (length p \<le> length s \<and> drop (length s - length p) s = p)"

definition join_step :: "string \<Rightarrow> string \<Rightarrow> string" where
  "join_step path b =
     (if startswith b sep then b
      else if path = [] \<or> endswith path sep then path @ b
      else path @ sep @ b)"

definition path_join :: "string \<Rightarrow> string list \<Rightarrow> string" where
  "path_join a p = foldl join_step a p"

text \<open>Lines 506-517.\<close>

definition build_absolute_path :: "config \<Rightarrow> string \<Rightarrow> string \<Rightarrow> string" where
  "build_absolute_path cfg now relative_path =
     path_join (s3_output_base_path cfg) [EXAMPLE_NAME now, relative_path]"

text \<open>Lines 485-503.\<close>

definition build_encoding_output :: "config \<Rightarrow> string \<Rightarrow> ident \<Rightarrow> string \<Rightarrow> EncodingOutput" where
  "build_encoding_output cfg now output output_path' =
     (let acl_entry = \<lparr>permission = PUBLIC_READ\<rparr>
      in \<lparr>output_path = build_absolute_path cfg now output_path',
          output_id = output,
          acl = [acl_entry]\<rparr>)"

subsection \<open>The service and the state of the run\<close>

text \<open>
  Every creation endpoint answers with the created resource, of which the script reads
  the identifier only. \<open>ids r n\<close> is the identifier the service gives to the resource of
  its \<open>n\<close>-th creation request, \<open>tasks r n\<close> the task it returns to the \<open>n\<close>-th status
  request (both counted from 0).
\<close>

record remote =
  ids :: "nat \<Rightarrow> ident"
  tasks :: "nat \<Rightarrow> Task"

text \<open>
  One constructor per creation endpoint of the client; the first argument of the last
  four is the \<open>encoding_id\<close> parameter.
\<close>

datatype request =
    Encodings_create Encoding
  | Inputs_http_create HttpInput
  | Outputs_s3_create S3Output
  | Configurations_video_h264_create H264VideoConfiguration
  | Configurations_audio_aac_create AacAudioConfiguration
  | Configurations_audio_dolby_digital_create DolbyDigitalAudioConfiguration
  | Input_streams_ingest_create ident IngestInputStream
  | Input_streams_audio_mix_create ident AudioMixInputStream
  | Streams_create ident Stream
  | Muxings_mp4_create ident Mp4Muxing

text \<open>
  What \<open>print\<close> writes: the formatted status line of line 199, whose rendering of the
  status and the progress is the SDK's, or a plain text.
\<close>

datatype out_line = Status_line Status int | Text_line string

text \<open>
  The effects of the script in the order they happen: a creation request with the
  identifier answered, the start request, a sleep of so many seconds, a status request,
  a printed line.
\<close>

datatype event =
    Created request ident
  | Started ident
  | Slept nat
  | Status_requested ident
  | Printed out_line

record world =
  created :: nat
  polled :: nat
  trace :: "event list"

definition api_create :: "remote \<Rightarrow> request \<Rightarrow> world \<Rightarrow> ident \<times> world" where
  "api_create r req w =
     (ids r (created w),
      w\<lparr>created := Suc (created w), trace := trace w @ [Created req (ids r (created w))]\<rparr>)"

definition api_start :: "ident \<Rightarrow> world \<Rightarrow> world" where
  "api_start encoding_id w = w\<lparr>trace := trace w @ [Started encoding_id]\<rparr>"

definition api_status :: "remote \<Rightarrow> ident \<Rightarrow> world \<Rightarrow> Task \<times> world" where
  "api_status r encoding_id w =
     (tasks r (polled w),
      w\<lparr>polled := Suc (polled w), trace := trace w @ [Status_requested encoding_id]\<rparr>)"

definition sleep :: "nat \<Rightarrow> world \<Rightarrow> world" where
  "sleep n w = w\<lparr>trace := trace w @ [Slept n]\<rparr>"

definition print :: "out_line \<Rightarrow> world \<Rightarrow> world" where
  "print l w = w\<lparr>trace := trace w @ [Printed l]\<rparr>"

subsection \<open>The channel mapping tables\<close>

text \<open>Lines 104-107 and 108-115 of \<open>main\<close>.\<close>

definition stereo_map :: "ChannelMappingConfig list" where
  "stereo_map =
     [\<lparr>output_channel_type = FRONT_LEFT, source_channel_number = 0\<rparr>,
      \<lparr>output_channel_type = FRONT_RIGHT, source_channel_number = 1\<rparr>]"

definition surround_map :: "ChannelMappingConfig list" where
  "surround_map =
     [\<lparr>output_channel_type = FRONT_LEFT, source_channel_number = 2\<rparr>,
      \<lparr>output_channel_type = FRONT_RIGHT, source_channel_number = 3\<rparr>,
      \<lparr>output_channel_type = BACK_LEFT, source_channel_number = 4\<rparr>,
      \<lparr>output_channel_type = BACK_RIGHT, source_channel_number = 5\<rparr>,
      \<lparr>output_channel_type = CENTER, source_channel_number = 6\<rparr>,
      \<lparr>output_channel_type = LOW_FREQUENCY, source_channel_number = 7\<rparr>]"

subsection \<open>Resource creation\<close>

text \<open>
  Each function builds its request object and sends it; the result is the identifier
  of the resource the service answers with (the script reads \<open>.id\<close> and nothing else).
  An argument that the script passes as a resource object is passed here as that
  object's identifier.
\<close>

text \<open>Lines 203-219.\<close>

definition create_encoding :: "remote \<Rightarrow> string \<Rightarrow> string \<Rightarrow> world \<Rightarrow> ident \<times> world" where
  "create_encoding r name description w =
     (let encoding = \<lparr>encoding_name = name, encoding_description = description\<rparr>
      in api_create r (Encodings_create encoding) w)"

text \<open>Lines 222-241.\<close>

definition create_http_input :: "remote \<Rightarrow> string \<Rightarrow> world \<Rightarrow> ident \<times> world" where
  "create_http_input r host' w =
     (let http_input = \<lparr>host = host'\<rparr>
      in api_create r (Inputs_http_create http_input) w)"

text \<open>Lines 244-276.\<close>

definition create_s3_output :: "remote \<Rightarrow> string \<Rightarrow> string \<Rightarrow> string \<Rightarrow> world \<Rightarrow> ident \<times> world" where
  "create_s3_output r bucket_name' access_key' secret_key' w =
     (let s3_output = \<lparr>bucket_name = bucket_name', access_key = access_key',
                        secret_key = secret_key'\<rparr>
      in api_create r (Outputs_s3_create s3_output) w)"

text \<open>Lines 279-303.\<close>

definition create_ingest_input_stream ::
  "remote \<Rightarrow> ident \<Rightarrow> ident \<Rightarrow> string \<Rightarrow> world \<Rightarrow> ident \<times> world" where
  "create_ingest_input_stream r encoding input input_path' w =
     (let ingest_input_stream =
            \<lparr>input_id = input, input_path = input_path', selection_mode = AUTO,
             position = None\<rparr>
      in api_create r (Input_streams_ingest_create encoding ingest_input_stream) w)"

text \<open>Lines 306-333.\<close>

definition create_ingest_input_stream_for_audio_track ::
  "remote \<Rightarrow> ident \<Rightarrow> ident \<Rightarrow> string \<Rightarrow> int \<Rightarrow> world \<Rightarrow> ident \<times> world" where
  "create_ingest_input_stream_for_audio_track r encoding input input_path' position' w =
     (let ingest_input_stream =
            \<lparr>input_id = input, input_path = input_path', selection_mode = AUDIO_RELATIVE,
             position = Some position'\<rparr>
      in api_create r (Input_streams_ingest_create encoding ingest_input_stream) w)"

text \<open>
  The loop of lines 342-361: one ingest request per mapping entry, then the assignment
  built from its answer is appended to the mix.
\<close>

fun audio_mix_loop ::
  "remote \<Rightarrow> ident \<Rightarrow> ident \<Rightarrow> string \<Rightarrow> ChannelMappingConfig list \<Rightarrow>
   AudioMixInputStream \<Rightarrow> world \<Rightarrow> AudioMixInputStream \<times> world" where
  "audio_mix_loop r encoding input input_file_path [] audio_mix_input_stream w =
     (audio_mix_input_stream, w)"
| "audio_mix_loop r encoding input input_file_path (mapping_config # rest)
     audio_mix_input_stream w =
     (let (audio_ingest_input_stream, w1) =
            create_ingest_input_stream_for_audio_track r encoding input input_file_path
              (source_channel_number mapping_config) w;
          output_channel =
            \<lparr>input_stream_id = audio_ingest_input_stream,
             mix_output_channel_type = output_channel_type mapping_config,
             source_channels = []\<rparr>;
          source_channel = \<lparr>source_type = CHANNEL_NUMBER, channel_number = 0\<rparr>;
          output_channel1 =
            output_channel\<lparr>source_channels :=
              source_channels output_channel @ [source_channel]\<rparr>;
          audio_mix_input_stream1 =
            audio_mix_input_stream\<lparr>audio_mix_channels :=
              audio_mix_channels audio_mix_input_stream @ [output_channel1]\<rparr>
      in audio_mix_loop r encoding input input_file_path rest audio_mix_input_stream1 w1)"

text \<open>Lines 336-366.\<close>

definition create_audio_mix_input_stream ::
  "remote \<Rightarrow> ident \<Rightarrow> ident \<Rightarrow> string \<Rightarrow> AudioMixInputChannelLayout \<Rightarrow>
   ChannelMappingConfig list \<Rightarrow> world \<Rightarrow> ident \<times> world" where
  "create_audio_mix_input_stream r encoding input input_file_path channel_layout'
     mapping_configs w =
     (let audio_mix_input_stream =
            \<lparr>channel_layout = channel_layout', audio_mix_channels = []\<rparr>;
          (audio_mix_input_stream1, w1) =
            audio_mix_loop r encoding input input_file_path mapping_configs
              audio_mix_input_stream w
      in api_create r (Input_streams_audio_mix_create encoding audio_mix_input_stream1) w1)"

text \<open>Lines 369-393.\<close>

definition create_h264_video_configuration :: "remote \<Rightarrow> world \<Rightarrow> ident \<times> world" where
  "create_h264_video_configuration r w =
     (let config = \<lparr>h264_name = ''H.264 1080p @ 1.5 Mbit/S'', h264_height = 1080,
                     h264_bitrate = 1500000, h264_preset_configuration = VOD_STANDARD\<rparr>
      in api_create r (Configurations_video_h264_create config) w)"

text \<open>Lines 396-419.\<close>

definition create_stream :: "remote \<Rightarrow> ident \<Rightarrow> ident \<Rightarrow> ident \<Rightarrow> world \<Rightarrow> ident \<times> world" where
  "create_stream r encoding input_stream codec_configuration w =
     (let stream_input = \<lparr>stream_input_stream_id = input_stream\<rparr>;
          stream = \<lparr>input_streams = [stream_input], codec_config_id = codec_configuration,
                    mode = STANDARD\<rparr>
      in api_create r (Streams_create encoding stream) w)"

text \<open>Lines 422-436.\<close>

definition create_aac_audio_configuration :: "remote \<Rightarrow> world \<Rightarrow> ident \<times> world" where
  "create_aac_audio_configuration r w =
     (let config = \<lparr>aac_name = ''AAC Audio @ 128 kbit/s'', aac_bitrate = 128000\<rparr>
      in api_create r (Configurations_audio_aac_create config) w)"

text \<open>Lines 439-453.\<close>

definition create_dd_surround_audio_configuration :: "remote \<Rightarrow> world \<Rightarrow> ident \<times> world" where
  "create_dd_surround_audio_configuration r w =
     (let config = \<lparr>dd_name = ''Dolby Digital Channel Layout 5.1'', dd_bitrate = 256000,
                     dd_channel_layout = CL_5_1\<rparr>
      in api_create r (Configurations_audio_dolby_digital_create config) w)"

text \<open>The loop of lines 477-479.\<close>

fun muxing_streams_loop :: "ident list \<Rightarrow> Mp4Muxing \<Rightarrow> Mp4Muxing" where
  "muxing_streams_loop [] muxing = muxing"
| "muxing_streams_loop (stream # rest) muxing =
     (let muxing_stream = \<lparr>stream_id = stream\<rparr>
      in muxing_streams_loop rest (muxing\<lparr>streams := streams muxing @ [muxing_stream]\<rparr>))"

text \<open>Lines 456-482.\<close>

definition create_mp4_muxing ::
  "config \<Rightarrow> string \<Rightarrow> remote \<Rightarrow> ident \<Rightarrow> ident \<Rightarrow> string \<Rightarrow> ident list \<Rightarrow> string \<Rightarrow>
   world \<Rightarrow> ident \<times> world" where
  "create_mp4_muxing cfg now r encoding output output_path' streams' file_name w =
     (let muxing = \<lparr>outputs = [build_encoding_output cfg now output output_path'],
                     filename = file_name, streams = []\<rparr>;
          muxing1 = muxing_streams_loop streams' muxing
      in api_create r (Muxings_mp4_create encoding muxing1) w)"

subsection \<open>The job lifecycle\<close>

text \<open>Lines 189-200.\<close>

definition wait_for_enoding_to_finish :: "remote \<Rightarrow> ident \<Rightarrow> world \<Rightarrow> Task \<times> world" where
  "wait_for_enoding_to_finish r encoding_id w =
     (let w1 = sleep 5 w;
          (task, w2) = api_status r encoding_id w1;
          w3 = print (Status_line (status task) (progress task)) w2
      in (task, w3))"

text \<open>The loop of lines 533-534.\<close>

fun print_messages :: "Message list \<Rightarrow> world \<Rightarrow> world" where
  "print_messages [] w = w"
| "print_messages (message # rest) w = print_messages rest (print (Text_line (msg_text message)) w)"

text \<open>Lines 520-534. The argument may be \<open>None\<close>.\<close>

definition log_task_errors :: "Task option \<Rightarrow> world \<Rightarrow> world" where
  "log_task_errors task w =
     (case task of
        None \<Rightarrow> w
      | Some t \<Rightarrow>
          (let filtered = filter (\<lambda>x. msg_type x = MSG_ERROR) (messages t)
           in print_messages filtered w))"

text \<open>
  The loop of lines 179-180. It has no bound, so it is a partial function: \<open>None\<close> is
  the run that never leaves the loop.
\<close>

partial_function (option) polling_loop ::
  "remote \<Rightarrow> ident \<Rightarrow> Task \<Rightarrow> world \<Rightarrow> (Task \<times> world) option" where
  "polling_loop r encoding_id task w =
     (if status task \<noteq> FINISHED \<and> status task \<noteq> ERROR
      then (case wait_for_enoding_to_finish r encoding_id w of
              (task1, w1) \<Rightarrow> polling_loop r encoding_id task1 w1)
      else Some (task, w))"

datatype error = Exception string

text \<open>
  Lines 160-186. \<open>Inl\<close> is the raised exception, \<open>Inr ()\<close> the normal return, each with
  the state reached.
\<close>

definition execute_encoding :: "remote \<Rightarrow> ident \<Rightarrow> world \<Rightarrow> ((error + unit) \<times> world) option" where
  "execute_encoding r encoding w =
     (let w0 = api_start encoding w;
          (task, w1) = wait_for_enoding_to_finish r encoding w0
      in case polling_loop r encoding task w1 of
           None \<Rightarrow> None
         | Some (task1, w2) \<Rightarrow>
             if status task1 = ERROR
             then Some (Inl (Exception ''Encoding failed''), log_task_errors (Some task1) w2)
             else Some (Inr (), print (Text_line ''Encoding finished successfully'') w2))"

subsection \<open>The main function\<close>

text \<open>Lines 80-155: everything \<open>main\<close> does before it starts the encoding.\<close>

definition main_build :: "config \<Rightarrow> string \<Rightarrow> remote \<Rightarrow> world \<Rightarrow> ident \<times> world" where
  "main_build cfg now r w0 =
     (let (encoding, w1) =
            create_encoding r ''Audio Mapping - Stream Mapping - Multiple Mono Tracks''
              ''Input with multiple mono tracks -> Output with stereo and surround tracks'' w0;
          (http_input, w2) = create_http_input r (http_input_host cfg) w1;
          (output, w3) =
            create_s3_output r (s3_output_bucket_name cfg) (s3_output_access_key cfg)
              (s3_output_secret_key cfg) w2;
          (h264_config, w4) = create_h264_video_configuration r w3;
          (aac_config, w5) = create_aac_audio_configuration r w4;
          (dd_config, w6) = create_dd_surround_audio_configuration r w5;
          input_file_path = http_input_file_path_with_multiple_mono_audio_tracks cfg;
          (video_ingest_input_stream, w7) =
            create_ingest_input_stream r encoding http_input input_file_path w6;
          (stereo_mix_input_stream, w8) =
            create_audio_mix_input_stream r encoding http_input input_file_path CL_STEREO
              stereo_map w7;
          (surround_mix_input_stream, w9) =
            create_audio_mix_input_stream r encoding http_input input_file_path CL_5_1_BACK
              surround_map w8;
          (video_stream, w10) = create_stream r encoding video_ingest_input_stream h264_config w9;
          (audio_stream1, w11) = create_stream r encoding stereo_mix_input_stream aac_config w10;
          (audio_stream2, w12) = create_stream r encoding surround_mix_input_stream dd_config w11;
          (muxing, w13) =
            create_mp4_muxing cfg now r encoding output ''/''
              [video_stream, audio_stream1, audio_stream2]
              ''stereo-and-surround-tracks-mapped.mp4'' w12
      in (encoding, w13))"

text \<open>Lines 79-157.\<close>

definition main :: "config \<Rightarrow> string \<Rightarrow> remote \<Rightarrow> world \<Rightarrow> ((error + unit) \<times> world) option" where
  "main cfg now r w =
     (let (encoding, w1) = main_build cfg now r w
      in execute_encoding r encoding w1)"

section \<open>Observations on traces\<close>

text \<open>The events a step appended: those of the later state beyond the earlier one's.\<close>

definition new_events :: "world \<Rightarrow> world \<Rightarrow> event list" where
  "new_events w w' = drop (length (trace w)) (trace w')"

text \<open>The ingest requests of a trace, in order, and the identifiers answered to them.\<close>

definition ingest_requests :: "event list \<Rightarrow> IngestInputStream list" where
  "ingest_requests es =
     concat (map (\<lambda>ev. case ev of
                          Created (Input_streams_ingest_create e s) i \<Rightarrow> [s]
                        | _ \<Rightarrow> []) es)"

definition ingest_answers :: "event list \<Rightarrow> ident list" where
  "ingest_answers es =
     concat (map (\<lambda>ev. case ev of
                          Created (Input_streams_ingest_create e s) i \<Rightarrow> [i]
                        | _ \<Rightarrow> []) es)"

text \<open>The mixed-stream requests and the MP4 muxing requests of a trace, in order.\<close>

definition audio_mix_requests :: "event list \<Rightarrow> AudioMixInputStream list" where
  "audio_mix_requests es =
     concat (map (\<lambda>ev. case ev of
                          Created (Input_streams_audio_mix_create e s) i \<Rightarrow> [s]
                        | _ \<Rightarrow> []) es)"

definition mp4_muxing_requests :: "event list \<Rightarrow> Mp4Muxing list" where
  "mp4_muxing_requests es =
     concat (map (\<lambda>ev. case ev of
                          Created (Muxings_mp4_create e s) i \<Rightarrow> [s]
                        | _ \<Rightarrow> []) es)"

text \<open>
  The ingest request of a mapping entry and the assignment built for it, each paired
  with the number of the creation request.
\<close>

definition ingest_event ::
  "remote \<Rightarrow> ident \<Rightarrow> ident \<Rightarrow> string \<Rightarrow> nat \<times> ChannelMappingConfig \<Rightarrow> event" where
  "ingest_event r e i p km =
     Created (Input_streams_ingest_create e
        \<lparr>input_id = i, input_path = p, selection_mode = AUDIO_RELATIVE,
         position = Some (source_channel_number (snd km))\<rparr>) (ids r (fst km))"

definition assignment :: "remote \<Rightarrow> nat \<times> ChannelMappingConfig \<Rightarrow> AudioMixInputStreamChannel" where
  "assignment r km =
     \<lparr>input_stream_id = ids r (fst km),
      mix_output_channel_type = output_channel_type (snd km),
      source_channels = [\<lparr>source_type = CHANNEL_NUMBER, channel_number = 0\<rparr>]\<rparr>"

text \<open>A status is terminal when the loop of \<open>execute_encoding\<close> stops on it.\<close>

definition terminal :: "Status \<Rightarrow> bool" where
  "terminal s = (s = FINISHED \<or> s = ERROR)"

text \<open>The events of the poll that receives the \<open>k\<close>-th status answer.\<close>

definition poll_events :: "remote \<Rightarrow> ident \<Rightarrow> nat \<Rightarrow> event list" where
  "poll_events r e k =
     [Slept 5, Status_requested e,
      Printed (Status_line (status (tasks r k)) (progress (tasks r k)))]"

text \<open>The state after \<open>n\<close> more polls.\<close>

definition after_polls :: "remote \<Rightarrow> ident \<Rightarrow> nat \<Rightarrow> world \<Rightarrow> world" where
  "after_polls r e n w =
     w\<lparr>polled := polled w + n,
       trace := trace w @ concat (map (poll_events r e) [polled w ..< polled w + n])\<rparr>"

text \<open>Lines 182-186: what \<open>execute_encoding\<close> does with the task the loop stopped on.\<close>

definition report :: "Task \<Rightarrow> world \<Rightarrow> (error + unit) \<times> world" where
  "report task w =
     (if status task = ERROR
      then (Inl (Exception ''Encoding failed''), log_task_errors (Some task) w)
      else (Inr (), print (Text_line ''Encoding finished successfully'') w))"

section \<open>Sample inputs\<close>

text \<open>
  A service that numbers its resources by the length of the identifier and whose job
  is always running, and the state before the first call.
\<close>

definition service0 :: remote where
  "service0 = \<lparr>ids = (\<lambda>n. replicate n CHR ''i''),
               tasks = (\<lambda>n. \<lparr>status = RUNNING, progress = 0, messages = []\<rparr>)\<rparr>"

definition world0 :: world where
  "world0 = \<lparr>created = 0, polled = 0, trace = []\<rparr>"

text \<open>
  Services whose job is finished at the first status request, finishes at the third,
  and fails at the second with an error message and an informational one.
\<close>

definition service_done :: remote where
  "service_done =
     \<lparr>ids = (\<lambda>n. replicate n CHR ''i''),
      tasks = (\<lambda>n. \<lparr>status = FINISHED, progress = 100, messages = []\<rparr>)\<rparr>"

definition service_finishing :: remote where
  "service_finishing =
     \<lparr>ids = (\<lambda>n. replicate n CHR ''i''),
      tasks = (\<lambda>n. \<lparr>status = (if n < 2 then RUNNING else FINISHED), progress = 50 * int n,
                     messages = []\<rparr>)\<rparr>"

definition service_failing :: remote where
  "service_failing =
     \<lparr>ids = (\<lambda>n. replicate n CHR ''i''),
      tasks = (\<lambda>n. if n = 0 then \<lparr>status = RUNNING, progress = 10, messages = []\<rparr>
                    else \<lparr>status = ERROR, progress = 20,
                          messages = [\<lparr>msg_type = MSG_ERROR, msg_text = ''bad input''\<rparr>,
                                      \<lparr>msg_type = MSG_INFO, msg_text = ''ignored''\<rparr>]\<rparr>)\<rparr>"

section \<open>Properties\<close>

subsection \<open>Paths\<close>

lemma build_absolute_path_root: "build_absolute_path cfg now ''/'' = ''/''"
  by (simp add: build_absolute_path_def path_join_def join_step_def startswith_def sep_def)

text \<open>
  The example of the docstring of \<open>_build_absolute_path\<close>: a relative path that does not
  start with the separator is appended to the base path and the example name.
\<close>

lemma build_absolute_path_docstring_example:
  "build_absolute_path (cfg\<lparr>s3_output_base_path := ''/s3/base/path''\<rparr>)
     ''2024-01-01T00:00:00'' ''relative/path''
   = ''/s3/base/path/'' @ EXAMPLE_NAME ''2024-01-01T00:00:00'' @ ''/relative/path''"
  by (simp add: build_absolute_path_def path_join_def join_step_def startswith_def
      endswith_def sep_def EXAMPLE_NAME_def)

subsection \<open>Observers\<close>

lemma observers_append:
  "ingest_requests (xs @ ys) = ingest_requests xs @ ingest_requests ys"
  "ingest_answers (xs @ ys) = ingest_answers xs @ ingest_answers ys"
  "audio_mix_requests (xs @ ys) = audio_mix_requests xs @ audio_mix_requests ys"
  "mp4_muxing_requests (xs @ ys) = mp4_muxing_requests xs @ mp4_muxing_requests ys"
  by (simp_all add: ingest_requests_def ingest_answers_def audio_mix_requests_def
      mp4_muxing_requests_def)

lemma observers_ingest_events:
  "ingest_requests (map (ingest_event r e i p) kms) =
     map (\<lambda>km. \<lparr>input_id = i, input_path = p, selection_mode = AUDIO_RELATIVE,
                 position = Some (source_channel_number (snd km))\<rparr>) kms"
  "ingest_answers (map (ingest_event r e i p) kms) = map (\<lambda>km. ids r (fst km)) kms"
  "audio_mix_requests (map (ingest_event r e i p) kms) = []"
  "mp4_muxing_requests (map (ingest_event r e i p) kms) = []"
  by (induction kms)
    (simp_all add: ingest_requests_def ingest_answers_def audio_mix_requests_def
      mp4_muxing_requests_def ingest_event_def)

lemma observers_mix_event:
  "ingest_requests [Created (Input_streams_audio_mix_create e s) k] = []"
  "ingest_answers [Created (Input_streams_audio_mix_create e s) k] = []"
  "audio_mix_requests [Created (Input_streams_audio_mix_create e s) k] = [s]"
  "mp4_muxing_requests [Created (Input_streams_audio_mix_create e s) k] = []"
  by (simp_all add: ingest_requests_def ingest_answers_def audio_mix_requests_def
      mp4_muxing_requests_def)

subsection \<open>Stream assembly\<close>

lemma audio_mix_loop_eq:
  "audio_mix_loop r e i p ms a w =
     (a\<lparr>audio_mix_channels :=
          audio_mix_channels a @ map (assignment r) (enumerate (created w) ms)\<rparr>,
      w\<lparr>created := created w + length ms,
        trace := trace w @ map (ingest_event r e i p) (enumerate (created w) ms)\<rparr>)"
proof (induction ms arbitrary: a w)
  case Nil
  show ?case by simp
next
  case (Cons m ms)
  show ?case
    by (simp add: Cons.IH create_ingest_input_stream_for_audio_track_def api_create_def
        ingest_event_def assignment_def)
qed

lemma create_audio_mix_input_stream_eq:
  "create_audio_mix_input_stream r e i p layout ms w =
     (ids r (created w + length ms),
      w\<lparr>created := Suc (created w + length ms),
        trace := trace w @ map (ingest_event r e i p) (enumerate (created w) ms) @
          [Created (Input_streams_audio_mix_create e
             \<lparr>channel_layout = layout,
              audio_mix_channels = map (assignment r) (enumerate (created w) ms)\<rparr>)
             (ids r (created w + length ms))]\<rparr>)"
  by (simp add: create_audio_mix_input_stream_def audio_mix_loop_eq api_create_def)

lemma audio_mix_new_events:
  "new_events w (snd (create_audio_mix_input_stream r e i p layout ms w)) =
     map (ingest_event r e i p) (enumerate (created w) ms) @
     [Created (Input_streams_audio_mix_create e
        \<lparr>channel_layout = layout,
         audio_mix_channels = map (assignment r) (enumerate (created w) ms)\<rparr>)
        (ids r (created w + length ms))]"
  by (simp add: new_events_def create_audio_mix_input_stream_eq)

lemma muxing_streams_loop_eq:
  "muxing_streams_loop ss m = m\<lparr>streams := streams m @ map (\<lambda>s. \<lparr>stream_id = s\<rparr>) ss\<rparr>"
  by (induction ss arbitrary: m) simp_all

subsection \<open>The job lifecycle\<close>

lemma print_messages_eq:
  "print_messages ms w =
     w\<lparr>trace := trace w @ map (\<lambda>m. Printed (Text_line (msg_text m))) ms\<rparr>"
  by (induction ms arbitrary: w) (simp_all add: print_def)

lemma wait_eq:
  "wait_for_enoding_to_finish r e w = (tasks r (polled w), after_polls r e (Suc 0) w)"
  by (simp add: wait_for_enoding_to_finish_def sleep_def api_status_def print_def
      after_polls_def poll_events_def)

lemma after_polls_Suc:
  "after_polls r e n (after_polls r e (Suc 0) w) = after_polls r e (Suc n) w"
  by (simp add: after_polls_def upt_conv_Cons del: upt_Suc)

lemma polling_loop_done:
  "terminal (status task) \<Longrightarrow> polling_loop r e task w = Some (task, w)"
  by (subst polling_loop.simps) (auto simp: terminal_def)

lemma polling_loop_step:
  "\<not> terminal (status task) \<Longrightarrow>
   polling_loop r e task w = polling_loop r e (tasks r (polled w)) (after_polls r e (Suc 0) w)"
  by (subst polling_loop.simps) (simp add: terminal_def wait_eq)

text \<open>
  The loop stops at the first terminal status: when the answers before the \<open>n\<close>-th
  further one are not terminal and that one is, the loop returns it after \<open>n + 1\<close> polls.
\<close>

lemma polling_loop_first_terminal:
  "\<not> terminal (status task) \<Longrightarrow>
   \<forall>k<n. \<not> terminal (status (tasks r (polled w + k))) \<Longrightarrow>
   terminal (status (tasks r (polled w + n))) \<Longrightarrow>
   polling_loop r e task w = Some (tasks r (polled w + n), after_polls r e (Suc n) w)"
proof (induction n arbitrary: task w)
  case 0
  then show ?case
    by (simp add: polling_loop_step polling_loop_done)
next
  case (Suc n)
  let ?w1 = "after_polls r e (Suc 0) w"
  have p1: "polled ?w1 = Suc (polled w)"
    by (simp add: after_polls_def)
  have nt: "\<not> terminal (status (tasks r (polled w)))"
    using Suc.prems(2) by (metis add.right_neutral zero_less_Suc)
  have rest: "\<forall>k<n. \<not> terminal (status (tasks r (polled ?w1 + k)))"
  proof (intro allI impI)
    fix k assume "k < n"
    then have "Suc k < Suc n" by simp
    with Suc.prems(2) have "\<not> terminal (status (tasks r (polled w + Suc k)))" by blast
    then show "\<not> terminal (status (tasks r (polled ?w1 + k)))" by (simp add: p1)
  qed
  have last: "terminal (status (tasks r (polled ?w1 + n)))"
    using Suc.prems(3) by (simp add: p1)
  have "polling_loop r e task w = polling_loop r e (tasks r (polled w)) ?w1"
    using Suc.prems(1) by (rule polling_loop_step)
  also have "\<dots> = Some (tasks r (polled ?w1 + n), after_polls r e (Suc n) ?w1)"
    using nt rest last by (rule Suc.IH)
  finally show ?case
    by (simp add: p1 after_polls_Suc)
qed

text \<open>A loop that returns has seen a terminal status.\<close>

lemma polling_loop_returns:
  assumes "polling_loop r e task w = Some y"
  shows "terminal (status task) \<or> (\<exists>n. terminal (status (tasks r (polled w + n))))"
proof (rule polling_loop.raw_induct
    [where P = "\<lambda>r e task w y.
       terminal (status task) \<or> (\<exists>n. terminal (status (tasks r (polled w + n))))",
     OF _ assms])
  fix loop :: "remote \<Rightarrow> ident \<Rightarrow> Task \<Rightarrow> world \<Rightarrow> (Task \<times> world) option"
    and r :: remote and e :: ident and task :: Task and w :: world and y :: "Task \<times> world"
  assume IH: "\<And>(r::remote) (e::ident) (task::Task) (w::world) y. loop r e task w = Some y \<Longrightarrow>
      terminal (status task) \<or> (\<exists>n. terminal (status (tasks r (polled w + n))))"
  assume body: "(if status task \<noteq> FINISHED \<and> status task \<noteq> ERROR
      then case wait_for_enoding_to_finish r e w of (task1, w1) \<Rightarrow> loop r e task1 w1
      else Some (task, w)) = Some y"
  show "terminal (status task) \<or> (\<exists>n. terminal (status (tasks r (polled w + n))))"
  proof (cases "terminal (status task)")
    case True
    then show ?thesis by simp
  next
    case False
    then have "loop r e (tasks r (polled w)) (after_polls r e (Suc 0) w) = Some y"
      using body by (simp add: terminal_def wait_eq)
    then have "terminal (status (tasks r (polled w))) \<or>
        (\<exists>n. terminal (status (tasks r (polled (after_polls r e (Suc 0) w) + n))))"
      by (rule IH)
    then show ?thesis
    proof
      assume "terminal (status (tasks r (polled w)))"
      then have "terminal (status (tasks r (polled w + 0)))" by simp
      then show ?thesis by blast
    next
      assume "\<exists>n. terminal (status (tasks r (polled (after_polls r e (Suc 0) w) + n)))"
      then obtain n where "terminal (status (tasks r (polled w + Suc n)))"
        by (auto simp: after_polls_def)
      then show ?thesis by blast
    qed
  qed
qed

lemma execute_encoding_eq:
  "execute_encoding r e w =
     map_option (\<lambda>(task, w'). report task w')
       (polling_loop r e (tasks r (polled w)) (after_polls r e (Suc 0) (api_start e w)))"
  by (simp add: execute_encoding_def wait_eq report_def api_start_def Let_def
      split: option.split prod.split)

lemma execute_encoding_first_terminal:
  assumes "\<forall>k<n. \<not> terminal (status (tasks r (polled w + k)))"
    and "terminal (status (tasks r (polled w + n)))"
  shows "execute_encoding r e w =
     Some (report (tasks r (polled w + n)) (after_polls r e (Suc n) (api_start e w)))"
proof (cases n)
  case 0
  then show ?thesis
    using assms by (simp add: execute_encoding_eq polling_loop_done api_start_def)
next
  case (Suc m)
  let ?w0 = "api_start e w"
  let ?w1 = "after_polls r e (Suc 0) ?w0"
  have p1: "polled ?w1 = Suc (polled w)"
    by (simp add: after_polls_def api_start_def)
  have nt: "\<not> terminal (status (tasks r (polled w)))"
    using assms(1) Suc by (metis add.right_neutral zero_less_Suc)
  have rest: "\<forall>k<m. \<not> terminal (status (tasks r (polled ?w1 + k)))"
  proof (intro allI impI)
    fix k assume "k < m"
    then have "Suc k < n" using Suc by simp
    with assms(1) have "\<not> terminal (status (tasks r (polled w + Suc k)))" by blast
    then show "\<not> terminal (status (tasks r (polled ?w1 + k)))" by (simp add: p1)
  qed
  have last: "terminal (status (tasks r (polled ?w1 + m)))"
    using assms(2) Suc by (simp add: p1)
  have "polling_loop r e (tasks r (polled w)) ?w1 =
      Some (tasks r (polled ?w1 + m), after_polls r e (Suc m) ?w1)"
    using nt rest last by (rule polling_loop_first_terminal)
  then show ?thesis
    by (simp add: execute_encoding_eq p1 after_polls_Suc Suc)
qed

lemma execute_encoding_returns:
  assumes "execute_encoding r e w = Some y"
  shows "\<exists>n. terminal (status (tasks r (polled w + n)))"
proof -
  obtain z where
    z: "polling_loop r e (tasks r (polled w)) (after_polls r e (Suc 0) (api_start e w)) = Some z"
    using assms by (auto simp: execute_encoding_eq)
  have p1: "polled (after_polls r e (Suc 0) (api_start e w)) = Suc (polled w)"
    by (simp add: after_polls_def api_start_def)
  from polling_loop_returns [OF z] show ?thesis
  proof
    assume "terminal (status (tasks r (polled w)))"
    then have "terminal (status (tasks r (polled w + 0)))" by simp
    then show ?thesis by blast
  next
    assume "\<exists>n. terminal (status (tasks r (polled (after_polls r e (Suc 0) (api_start e w)) + n)))"
    then obtain n where "terminal (status (tasks r (polled w + Suc n)))"
      by (auto simp: p1)
    then show ?thesis by blast
  qed
qed

section \<open>The claims\<close>

subsection \<open>The mapping tables\<close>

text \<open>
  Claim C2. The two tables are constants: the stereo table has two entries, source
  track 0 for front-left and 1 for front-right; the surround table has six entries,
  tracks 2 to 7 for front-left, front-right, back-left, back-right, center and
  low-frequency, in this order.
\<close>

theorem channel_mapping_tables:
  "length stereo_map = 2 \<and>
   map (\<lambda>m. (source_channel_number m, output_channel_type m)) stereo_map =
     [(0, FRONT_LEFT), (1, FRONT_RIGHT)] \<and>
   length surround_map = 6 \<and>
   map (\<lambda>m. (source_channel_number m, output_channel_type m)) surround_map =
     [(2, FRONT_LEFT), (3, FRONT_RIGHT), (4, BACK_LEFT), (5, BACK_RIGHT), (6, CENTER),
      (7, LOW_FREQUENCY)]"
  by (simp add: stereo_map_def surround_map_def)

subsection \<open>Assignments of a mixed stream\<close>

lemma assignment_enumerate:
  "map (assignment r) (enumerate c ms) =
     map2 (\<lambda>m a. \<lparr>input_stream_id = a,
                   mix_output_channel_type = output_channel_type m,
                   source_channels = [\<lparr>source_type = CHANNEL_NUMBER, channel_number = 0\<rparr>]\<rparr>)
       ms (map (ids r) [c ..< c + length ms])"
proof (induction ms arbitrary: c)
  case Nil
  show ?case by simp
next
  case (Cons m ms)
  have "[c ..< c + length (m # ms)] = c # [Suc c ..< Suc c + length ms]"
    by (simp add: upt_conv_Cons del: upt_Suc)
  then have "map (assignment r) (enumerate c (m # ms)) =
      assignment r (c, m) #
      map2 (\<lambda>m a. \<lparr>input_stream_id = a,
                   mix_output_channel_type = output_channel_type m,
                   source_channels = [\<lparr>source_type = CHANNEL_NUMBER, channel_number = 0\<rparr>]\<rparr>)
       ms (map (ids r) [Suc c ..< Suc c + length ms])"
    by (simp only: enumerate_simps list.map Cons.IH)
  also have "assignment r (c, m) =
      \<lparr>input_stream_id = ids r c, mix_output_channel_type = output_channel_type m,
       source_channels = [\<lparr>source_type = CHANNEL_NUMBER, channel_number = 0\<rparr>]\<rparr>"
    by (simp add: assignment_def)
  finally show ?case
    by (simp add: upt_conv_Cons del: upt_Suc)
qed

lemma ingest_answers_enumerate:
  "map (\<lambda>km. ids r (fst km)) (enumerate c ms) = map (ids r) [c ..< c + length ms]"
  by (simp add: enumerate_eq_zip flip: map_map [of "ids r" fst, unfolded comp_def])

lemma enumerate_snd: "map (\<lambda>km. f (snd km)) (enumerate c ms) = map f ms"
  by (simp add: enumerate_eq_zip flip: map_map [of f snd, unfolded comp_def])

text \<open>
  Claim C4. For any table, the one mixed-stream request carries one assignment per
  entry, in table order: the identifier answered to the entry's ingest request, the
  entry's output channel role, and a single source channel, channel number 0. There are
  as many ingest answers and as many assignments as entries; the ingest request of an
  entry selects the entry's source track, and the answers are the service's for the
  requests numbered from \<open>created w\<close>.
\<close>

theorem audio_mix_assignments:
  fixes r e i p layout ms w
  defines "tr \<equiv> new_events w (snd (create_audio_mix_input_stream r e i p layout ms w))"
  shows "map audio_mix_channels (audio_mix_requests tr) =
     [map2 (\<lambda>m a. \<lparr>input_stream_id = a,
                    mix_output_channel_type = output_channel_type m,
                    source_channels = [\<lparr>source_type = CHANNEL_NUMBER, channel_number = 0\<rparr>]\<rparr>)
        ms (ingest_answers tr)] \<and>
   length (ingest_answers tr) = length ms \<and>
   ingest_answers tr = map (ids r) [created w ..< created w + length ms] \<and>
   ingest_requests tr =
     map (\<lambda>m. \<lparr>input_id = i, input_path = p, selection_mode = AUDIO_RELATIVE,
                position = Some (source_channel_number m)\<rparr>) ms \<and>
   map (\<lambda>mix. length (audio_mix_channels mix)) (audio_mix_requests tr) = [length ms] \<and>
   map (\<lambda>mix. map input_stream_id (audio_mix_channels mix)) (audio_mix_requests tr) =
     [ingest_answers tr] \<and>
   map (\<lambda>mix. map mix_output_channel_type (audio_mix_channels mix)) (audio_mix_requests tr) =
     [map output_channel_type ms] \<and>
   map (\<lambda>mix. map source_channels (audio_mix_channels mix)) (audio_mix_requests tr) =
     [replicate (length ms) [\<lparr>source_type = CHANNEL_NUMBER, channel_number = 0\<rparr>]]"
proof -
  have tr: "tr = map (ingest_event r e i p) (enumerate (created w) ms) @
     [Created (Input_streams_audio_mix_create e
        \<lparr>channel_layout = layout,
         audio_mix_channels = map (assignment r) (enumerate (created w) ms)\<rparr>)
        (ids r (created w + length ms))]"
    by (simp add: tr_def audio_mix_new_events)
  have ans: "ingest_answers tr = map (ids r) [created w ..< created w + length ms]"
    by (simp add: tr observers_append observers_mix_event observers_ingest_events
        ingest_answers_enumerate)
  have req: "ingest_requests tr =
     map (\<lambda>m. \<lparr>input_id = i, input_path = p, selection_mode = AUDIO_RELATIVE,
                position = Some (source_channel_number m)\<rparr>) ms"
    by (simp add: tr observers_append observers_mix_event observers_ingest_events
        enumerate_snd [of "\<lambda>n. \<lparr>input_id = i, input_path = p, selection_mode = AUDIO_RELATIVE,
                      position = Some (source_channel_number n)\<rparr>"])
  have mix: "audio_mix_requests tr =
      [\<lparr>channel_layout = layout,
        audio_mix_channels = map (assignment r) (enumerate (created w) ms)\<rparr>]"
    by (simp add: tr observers_append observers_mix_event observers_ingest_events)
  have chans: "map (assignment r) (enumerate (created w) ms) =
     map2 (\<lambda>m a. \<lparr>input_stream_id = a,
                    mix_output_channel_type = output_channel_type m,
                    source_channels = [\<lparr>source_type = CHANNEL_NUMBER, channel_number = 0\<rparr>]\<rparr>)
        ms (ingest_answers tr)"
    by (simp only: ans assignment_enumerate)
  have roles: "map mix_output_channel_type (map (assignment r) (enumerate (created w) ms))
      = map output_channel_type ms"
    by (simp add: assignment_def comp_def enumerate_snd)
  have refs: "map input_stream_id (map (assignment r) (enumerate (created w) ms))
      = ingest_answers tr"
    by (simp add: ans assignment_def comp_def ingest_answers_enumerate)
  have srcs: "map source_channels (map (assignment r) (enumerate (created w) ms))
      = replicate (length ms) [\<lparr>source_type = CHANNEL_NUMBER, channel_number = 0\<rparr>]"
    by (simp add: assignment_def comp_def map_replicate_const)
  have len: "length (map (assignment r) (enumerate (created w) ms)) = length ms"
    by simp
  have one: "map audio_mix_channels (audio_mix_requests tr) =
     [map2 (\<lambda>m a. \<lparr>input_stream_id = a,
                    mix_output_channel_type = output_channel_type m,
                    source_channels = [\<lparr>source_type = CHANNEL_NUMBER, channel_number = 0\<rparr>]\<rparr>)
        ms (ingest_answers tr)]"
    by (simp only: mix list.map AudioMixInputStream.simps chans)
  have lans: "length (ingest_answers tr) = length ms"
    by (simp add: ans)
  have cnt: "map (\<lambda>mix. length (audio_mix_channels mix)) (audio_mix_requests tr) = [length ms]"
    by (simp add: mix)
  have c_refs: "map (\<lambda>mix. map input_stream_id (audio_mix_channels mix)) (audio_mix_requests tr) =
     [ingest_answers tr]"
    using refs by (simp add: mix)
  have c_roles: "map (\<lambda>mix. map mix_output_channel_type (audio_mix_channels mix))
     (audio_mix_requests tr) = [map output_channel_type ms]"
    using roles by (simp add: mix)
  have c_srcs: "map (\<lambda>mix. map source_channels (audio_mix_channels mix)) (audio_mix_requests tr) =
     [replicate (length ms) [\<lparr>source_type = CHANNEL_NUMBER, channel_number = 0\<rparr>]]"
    using srcs by (simp add: mix)
  from one lans ans req cnt c_refs c_roles c_srcs show ?thesis
    by (intro conjI)
qed

subsection \<open>Logging the errors of a task\<close>

text \<open>
  Claim C9. Without a task the logger changes nothing; with a task it prints the texts
  of the messages of type ERROR, in the order of the task's message list, and nothing
  else. It has no failing branch.
\<close>

theorem log_task_errors_prints_error_texts:
  "log_task_errors None w = w \<and>
   log_task_errors (Some task) w =
     w\<lparr>trace := trace w @
        map (\<lambda>m. Printed (Text_line (msg_text m)))
          (filter (\<lambda>m. msg_type m = MSG_ERROR) (messages task))\<rparr>"
  by (simp add: log_task_errors_def print_messages_eq)

subsection \<open>The requests of main\<close>

lemma mp4_muxing_requests_simps:
  "mp4_muxing_requests [] = []"
  "mp4_muxing_requests (Created req k # es) =
     (case req of Muxings_mp4_create e s \<Rightarrow> [s] | _ \<Rightarrow> []) @ mp4_muxing_requests es"
  by (simp_all add: mp4_muxing_requests_def)

lemma create_mp4_muxing_new_events:
  "new_events w (snd (create_mp4_muxing cfg now r e out pth ss fname w)) =
     [Created (Muxings_mp4_create e
        \<lparr>outputs = [build_encoding_output cfg now out pth], filename = fname,
         streams = map (\<lambda>s. \<lparr>stream_id = s\<rparr>) ss\<rparr>) (ids r (created w))]"
  by (simp add: new_events_def create_mp4_muxing_def muxing_streams_loop_eq api_create_def)

text \<open>
  Everything \<open>main\<close> sends before it starts the encoding: 21 creation requests, the
  \<open>n\<close>-th answered with the \<open>n\<close>-th identifier of the service.
\<close>

lemma main_build_new_events:
  "new_events w (snd (main_build cfg now r w)) =
         [Created (Encodings_create
            \<lparr>encoding_name = ''Audio Mapping - Stream Mapping - Multiple Mono Tracks'',
             encoding_description =
               ''Input with multiple mono tracks -> Output with stereo and surround tracks''\<rparr>)
            (ids r (created w)),
          Created (Inputs_http_create \<lparr>host = http_input_host cfg\<rparr>) (ids r (created w + 1)),
          Created (Outputs_s3_create
            \<lparr>bucket_name = s3_output_bucket_name cfg, access_key = s3_output_access_key cfg,
             secret_key = s3_output_secret_key cfg\<rparr>) (ids r (created w + 2)),
          Created (Configurations_video_h264_create
            \<lparr>h264_name = ''H.264 1080p @ 1.5 Mbit/S'', h264_height = 1080,
             h264_bitrate = 1500000, h264_preset_configuration = VOD_STANDARD\<rparr>)
            (ids r (created w + 3)),
          Created (Configurations_audio_aac_create
            \<lparr>aac_name = ''AAC Audio @ 128 kbit/s'', aac_bitrate = 128000\<rparr>)
            (ids r (created w + 4)),
          Created (Configurations_audio_dolby_digital_create
            \<lparr>dd_name = ''Dolby Digital Channel Layout 5.1'', dd_bitrate = 256000,
             dd_channel_layout = CL_5_1\<rparr>) (ids r (created w + 5)),
          Created (Input_streams_ingest_create (ids r (created w))
            \<lparr>input_id = ids r (created w + 1),
             input_path = http_input_file_path_with_multiple_mono_audio_tracks cfg,
             selection_mode = AUTO, position = None\<rparr>) (ids r (created w + 6))] @
         map (ingest_event r (ids r (created w)) (ids r (created w + 1))
                (http_input_file_path_with_multiple_mono_audio_tracks cfg))
           (enumerate (created w + 7) stereo_map) @
         [Created (Input_streams_audio_mix_create (ids r (created w))
            \<lparr>channel_layout = CL_STEREO,
             audio_mix_channels = map (assignment r) (enumerate (created w + 7) stereo_map)\<rparr>)
            (ids r (created w + 9))] @
         map (ingest_event r (ids r (created w)) (ids r (created w + 1))
                (http_input_file_path_with_multiple_mono_audio_tracks cfg))
           (enumerate (created w + 10) surround_map) @
         [Created (Input_streams_audio_mix_create (ids r (created w))
            \<lparr>channel_layout = CL_5_1_BACK,
             audio_mix_channels = map (assignment r) (enumerate (created w + 10) surround_map)\<rparr>)
            (ids r (created w + 16)),
          Created (Streams_create (ids r (created w))
            \<lparr>input_streams = [\<lparr>stream_input_stream_id = ids r (created w + 6)\<rparr>],
             codec_config_id = ids r (created w + 3), mode = STANDARD\<rparr>)
            (ids r (created w + 17)),
          Created (Streams_create (ids r (created w))
            \<lparr>input_streams = [\<lparr>stream_input_stream_id = ids r (created w + 9)\<rparr>],
             codec_config_id = ids r (created w + 4), mode = STANDARD\<rparr>)
            (ids r (created w + 18)),
          Created (Streams_create (ids r (created w))
            \<lparr>input_streams = [\<lparr>stream_input_stream_id = ids r (created w + 16)\<rparr>],
             codec_config_id = ids r (created w + 5), mode = STANDARD\<rparr>)
            (ids r (created w + 19)),
          Created (Muxings_mp4_create (ids r (created w))
            \<lparr>outputs = [\<lparr>output_path = ''/'', output_id = ids r (created w + 2),
                          acl = [\<lparr>permission = PUBLIC_READ\<rparr>]\<rparr>],
             filename = ''stereo-and-surround-tracks-mapped.mp4'',
             streams = [\<lparr>stream_id = ids r (created w + 17)\<rparr>,
                        \<lparr>stream_id = ids r (created w + 18)\<rparr>,
                        \<lparr>stream_id = ids r (created w + 19)\<rparr>]\<rparr>)
            (ids r (created w + 20))]"
proof -
  have two: "length stereo_map = 2" and six: "length surround_map = 6"
    by (simp_all add: stereo_map_def surround_map_def)
  show ?thesis
    by (simp add: new_events_def main_build_def create_encoding_def create_http_input_def
        create_s3_output_def
        create_h264_video_configuration_def create_aac_audio_configuration_def
        create_dd_surround_audio_configuration_def create_ingest_input_stream_def
        create_audio_mix_input_stream_eq create_stream_def create_mp4_muxing_def
        build_encoding_output_def build_absolute_path_root api_create_def two six Let_def
        eval_nat_numeral)
qed

text \<open>
  Claim C1. The claim is that the output path of the muxing is the base path, then the
  example name, then the relative path. \<open>main\<close> passes the relative path \<open>/\<close>, and
  \<open>os.path.join\<close> drops what precedes a component that starts with the separator: for
  the base path \<open>/outputs\<close> the path computed is \<open>/\<close>, and the one muxing request of
  \<open>main\<close> carries the output path \<open>/\<close> with the file name.
\<close>

theorem muxing_output_path_drops_base_path:
  "build_absolute_path (cfg\<lparr>s3_output_base_path := ''/outputs''\<rparr>) now ''/'' = ''/'' \<and>
   map (\<lambda>m. (map output_path (outputs m), filename m))
     (mp4_muxing_requests
        (new_events w (snd (main_build (cfg\<lparr>s3_output_base_path := ''/outputs''\<rparr>) now r w))))
   = [([''/''], ''stereo-and-surround-tracks-mapped.mp4'')]"
  by (simp add: build_absolute_path_root main_build_new_events observers_append
      observers_ingest_events mp4_muxing_requests_simps)

text \<open>
  Claim C8. \<open>main\<close> sends one MP4 muxing request. Its streams are, in this order, the
  identifiers answered to the 18th, 19th and 20th creation request: the stream of the
  video ingest with the H.264 configuration, the stream of the stereo mix with the AAC
  configuration, and the stream of the 5.1 mix with the Dolby Digital configuration.
  For any list of streams, the muxing request keeps the order of the list.
\<close>

theorem mp4_muxing_streams:
  fixes cfg now r w
  defines "c \<equiv> created w"
  defines "tr \<equiv> new_events w (snd (main_build cfg now r w))"
  shows "length tr = 21 \<and>
    tr ! 3 = Created (Configurations_video_h264_create
               \<lparr>h264_name = ''H.264 1080p @ 1.5 Mbit/S'', h264_height = 1080,
                h264_bitrate = 1500000, h264_preset_configuration = VOD_STANDARD\<rparr>)
               (ids r (c + 3)) \<and>
    tr ! 4 = Created (Configurations_audio_aac_create
               \<lparr>aac_name = ''AAC Audio @ 128 kbit/s'', aac_bitrate = 128000\<rparr>)
               (ids r (c + 4)) \<and>
    tr ! 5 = Created (Configurations_audio_dolby_digital_create
               \<lparr>dd_name = ''Dolby Digital Channel Layout 5.1'', dd_bitrate = 256000,
                dd_channel_layout = CL_5_1\<rparr>) (ids r (c + 5)) \<and>
    tr ! 6 = Created (Input_streams_ingest_create (ids r c)
               \<lparr>input_id = ids r (c + 1),
                input_path = http_input_file_path_with_multiple_mono_audio_tracks cfg,
                selection_mode = AUTO, position = None\<rparr>) (ids r (c + 6)) \<and>
    (\<exists>chs. tr ! 9 = Created (Input_streams_audio_mix_create (ids r c)
               \<lparr>channel_layout = CL_STEREO, audio_mix_channels = chs\<rparr>) (ids r (c + 9))) \<and>
    (\<exists>chs. tr ! 16 = Created (Input_streams_audio_mix_create (ids r c)
               \<lparr>channel_layout = CL_5_1_BACK, audio_mix_channels = chs\<rparr>) (ids r (c + 16))) \<and>
    tr ! 17 = Created (Streams_create (ids r c)
               \<lparr>input_streams = [\<lparr>stream_input_stream_id = ids r (c + 6)\<rparr>],
                codec_config_id = ids r (c + 3), mode = STANDARD\<rparr>) (ids r (c + 17)) \<and>
    tr ! 18 = Created (Streams_create (ids r c)
               \<lparr>input_streams = [\<lparr>stream_input_stream_id = ids r (c + 9)\<rparr>],
                codec_config_id = ids r (c + 4), mode = STANDARD\<rparr>) (ids r (c + 18)) \<and>
    tr ! 19 = Created (Streams_create (ids r c)
               \<lparr>input_streams = [\<lparr>stream_input_stream_id = ids r (c + 16)\<rparr>],
                codec_config_id = ids r (c + 5), mode = STANDARD\<rparr>) (ids r (c + 19)) \<and>
    map streams (mp4_muxing_requests tr) =
      [[\<lparr>stream_id = ids r (c + 17)\<rparr>, \<lparr>stream_id = ids r (c + 18)\<rparr>,
        \<lparr>stream_id = ids r (c + 19)\<rparr>]] \<and>
    map streams (mp4_muxing_requests
       (new_events w (snd (create_mp4_muxing cfg now r e out pth ss fname w)))) =
      [map (\<lambda>s. \<lparr>stream_id = s\<rparr>) ss]"
proof -
  have tr: "tr = new_events w (snd (main_build cfg now r w))"
    by (simp add: tr_def)
  have len: "length tr = 21"
    by (simp add: tr main_build_new_events stereo_map_def surround_map_def)
  have nth: "tr ! 3 = Created (Configurations_video_h264_create
               \<lparr>h264_name = ''H.264 1080p @ 1.5 Mbit/S'', h264_height = 1080,
                h264_bitrate = 1500000, h264_preset_configuration = VOD_STANDARD\<rparr>)
               (ids r (c + 3))"
    "tr ! 4 = Created (Configurations_audio_aac_create
               \<lparr>aac_name = ''AAC Audio @ 128 kbit/s'', aac_bitrate = 128000\<rparr>)
               (ids r (c + 4))"
    "tr ! 5 = Created (Configurations_audio_dolby_digital_create
               \<lparr>dd_name = ''Dolby Digital Channel Layout 5.1'', dd_bitrate = 256000,
                dd_channel_layout = CL_5_1\<rparr>) (ids r (c + 5))"
    "tr ! 6 = Created (Input_streams_ingest_create (ids r c)
               \<lparr>input_id = ids r (c + 1),
                input_path = http_input_file_path_with_multiple_mono_audio_tracks cfg,
                selection_mode = AUTO, position = None\<rparr>) (ids r (c + 6))"
    by (simp_all add: tr main_build_new_events c_def)
  have mix: "\<exists>chs. tr ! 9 = Created (Input_streams_audio_mix_create (ids r c)
               \<lparr>channel_layout = CL_STEREO, audio_mix_channels = chs\<rparr>) (ids r (c + 9))"
    "\<exists>chs. tr ! 16 = Created (Input_streams_audio_mix_create (ids r c)
               \<lparr>channel_layout = CL_5_1_BACK, audio_mix_channels = chs\<rparr>) (ids r (c + 16))"
    by (simp_all add: tr main_build_new_events c_def stereo_map_def surround_map_def)
  have str: "tr ! 17 = Created (Streams_create (ids r c)
               \<lparr>input_streams = [\<lparr>stream_input_stream_id = ids r (c + 6)\<rparr>],
                codec_config_id = ids r (c + 3), mode = STANDARD\<rparr>) (ids r (c + 17))"
    "tr ! 18 = Created (Streams_create (ids r c)
               \<lparr>input_streams = [\<lparr>stream_input_stream_id = ids r (c + 9)\<rparr>],
                codec_config_id = ids r (c + 4), mode = STANDARD\<rparr>) (ids r (c + 18))"
    "tr ! 19 = Created (Streams_create (ids r c)
               \<lparr>input_streams = [\<lparr>stream_input_stream_id = ids r (c + 16)\<rparr>],
                codec_config_id = ids r (c + 5), mode = STANDARD\<rparr>) (ids r (c + 19))"
    by (simp_all add: tr main_build_new_events c_def stereo_map_def surround_map_def)
  have mux: "map streams (mp4_muxing_requests tr) =
      [[\<lparr>stream_id = ids r (c + 17)\<rparr>, \<lparr>stream_id = ids r (c + 18)\<rparr>,
        \<lparr>stream_id = ids r (c + 19)\<rparr>]]"
    by (simp add: tr main_build_new_events c_def observers_append
      observers_ingest_events mp4_muxing_requests_simps)
  have any: "map streams (mp4_muxing_requests
       (new_events w (snd (create_mp4_muxing cfg now r e out pth ss fname w)))) =
      [map (\<lambda>s. \<lparr>stream_id = s\<rparr>) ss]"
    by (simp add: create_mp4_muxing_new_events mp4_muxing_requests_simps)
  show ?thesis
    using len nth mix str mux any by simp
qed

subsection \<open>The requests of stream assembly\<close>



subsection \<open>Simulated status sequences\<close>

lemma report_eq:
  "report task w =
     (if status task = ERROR
      then (Inl (Exception ''Encoding failed''),
            w\<lparr>trace := trace w @
               map (\<lambda>m. Printed (Text_line (msg_text m)))
                 (filter (\<lambda>m. msg_type m = MSG_ERROR) (messages task))\<rparr>)
      else (Inr (),
            w\<lparr>trace := trace w @ [Printed (Text_line ''Encoding finished successfully'')]\<rparr>))"
  by (simp add: report_def log_task_errors_def print_messages_eq print_def)

lemma upt_3: "[p ..< p + 3] = [p, p + 1, p + 2]"
  by (simp add: upt_conv_Cons eval_nat_numeral del: upt_Suc)

text \<open>
  Claim C5. When the first three status answers are RUNNING, RUNNING and FINISHED, the
  runner starts the encoding, polls three times (each poll a sleep of 5, a status
  request and the printed status line), prints the success message and returns
  normally.
\<close>

theorem execute_encoding_running_running_finished:
  assumes "status (tasks r (polled w)) = RUNNING"
    and "status (tasks r (polled w + 1)) = RUNNING"
    and "status (tasks r (polled w + 2)) = FINISHED"
  shows "execute_encoding r e w =
     Some (Inr (),
       w\<lparr>polled := polled w + 3,
         trace := trace w @
           [Started e,
            Slept 5, Status_requested e,
            Printed (Status_line RUNNING (progress (tasks r (polled w)))),
            Slept 5, Status_requested e,
            Printed (Status_line RUNNING (progress (tasks r (polled w + 1)))),
            Slept 5, Status_requested e,
            Printed (Status_line FINISHED (progress (tasks r (polled w + 2)))),
            Printed (Text_line ''Encoding finished successfully'')]\<rparr>)"
proof -
  have before: "\<forall>k<2. \<not> terminal (status (tasks r (polled w + k)))"
  proof (intro allI impI)
    fix k :: nat assume "k < 2"
    then have "k = 0 \<or> k = 1" by auto
    then show "\<not> terminal (status (tasks r (polled w + k)))"
      using assms(1,2) by (auto simp: terminal_def)
  qed
  have last: "terminal (status (tasks r (polled w + 2)))"
    using assms(3) by (simp add: terminal_def)
  have "execute_encoding r e w =
      Some (report (tasks r (polled w + 2)) (after_polls r e (Suc 2) (api_start e w)))"
    using before last by (rule execute_encoding_first_terminal)
  then show ?thesis
    using assms
    by (simp add: report_eq after_polls_def api_start_def poll_events_def upt_3
        del: upt_Suc)
qed

theorem execute_encoding_running_running_finished_witness:
  "execute_encoding service_finishing ''enc'' world0 =
     Some (Inr (),
       \<lparr>created = 0, polled = 3,
        trace =
          [Started ''enc'',
           Slept 5, Status_requested ''enc'', Printed (Status_line RUNNING 0),
           Slept 5, Status_requested ''enc'', Printed (Status_line RUNNING 50),
           Slept 5, Status_requested ''enc'', Printed (Status_line FINISHED 100),
           Printed (Text_line ''Encoding finished successfully'')]\<rparr>)"
  using execute_encoding_running_running_finished [of service_finishing world0 "''enc''"]
  by (simp add: service_finishing_def world0_def)

text \<open>
  Claim C6. When the first two status answers are RUNNING and ERROR, and the task
  answered last carries an ERROR message \<open>bad input\<close> and an INFO message \<open>ignored\<close>,
  the runner polls twice, prints of the messages only \<open>bad input\<close>, and raises the
  exception \<open>Encoding failed\<close>.
\<close>

theorem execute_encoding_running_error:
  assumes "status (tasks r (polled w)) = RUNNING"
    and "status (tasks r (polled w + 1)) = ERROR"
    and "messages (tasks r (polled w + 1)) =
           [\<lparr>msg_type = MSG_ERROR, msg_text = ''bad input''\<rparr>,
            \<lparr>msg_type = MSG_INFO, msg_text = ''ignored''\<rparr>]"
  shows "execute_encoding r e w =
     Some (Inl (Exception ''Encoding failed''),
       w\<lparr>polled := polled w + 2,
         trace := trace w @
           [Started e,
            Slept 5, Status_requested e,
            Printed (Status_line RUNNING (progress (tasks r (polled w)))),
            Slept 5, Status_requested e,
            Printed (Status_line ERROR (progress (tasks r (polled w + 1)))),
            Printed (Text_line ''bad input'')]\<rparr>)"
proof -
  have before: "\<forall>k<1. \<not> terminal (status (tasks r (polled w + k)))"
    using assms(1) by (simp add: terminal_def)
  have last: "terminal (status (tasks r (polled w + 1)))"
    using assms(2) by (simp add: terminal_def)
  have "execute_encoding r e w =
      Some (report (tasks r (polled w + 1)) (after_polls r e (Suc 1) (api_start e w)))"
    using before last by (rule execute_encoding_first_terminal)
  then show ?thesis
    using assms
    by (simp add: report_eq after_polls_def api_start_def poll_events_def upt_conv_Cons
        del: upt_Suc)
qed

theorem execute_encoding_running_error_witness:
  "execute_encoding service_failing ''enc'' world0 =
     Some (Inl (Exception ''Encoding failed''),
       \<lparr>created = 0, polled = 2,
        trace =
          [Started ''enc'',
           Slept 5, Status_requested ''enc'', Printed (Status_line RUNNING 10),
           Slept 5, Status_requested ''enc'', Printed (Status_line ERROR 20),
           Printed (Text_line ''bad input'')]\<rparr>)"
  using execute_encoding_running_error [of service_failing world0 "''enc''"]
  by (simp add: service_failing_def world0_def)

subsection \<open>Termination of the polling\<close>

lemma report_polled: "polled (snd (report task w)) = polled w"
  by (simp add: report_eq)

lemma first_terminal:
  assumes "\<exists>n. terminal (status (tasks r (p + n)))"
  obtains n where "\<forall>k<n. \<not> terminal (status (tasks r (p + k)))"
    and "terminal (status (tasks r (p + n)))"
proof -
  let ?P = "\<lambda>n. terminal (status (tasks r (p + n)))"
  have "?P (LEAST n. ?P n)"
    using assms by (rule LeastI_ex)
  moreover have "\<forall>k<(LEAST n. ?P n). \<not> ?P k"
    using not_less_Least by blast
  ultimately show ?thesis
    using that by blast
qed

text \<open>
  Claim C7. The runner returns (normally or with the exception) exactly when one of the
  status answers from the next one on is terminal (FINISHED or ERROR). When none is,
  it never returns. When the first terminal answer is the \<open>n\<close>-th further one, it
  returns after \<open>n + 1\<close> polls, for every \<open>n\<close>: the number of polls has no bound.
\<close>

theorem execute_encoding_returns_iff_terminal_status:
  "((\<exists>y. execute_encoding r e w = Some y) =
      (\<exists>n. terminal (status (tasks r (polled w + n))))) \<and>
   ((\<forall>n. \<not> terminal (status (tasks r (polled w + n)))) \<longrightarrow>
      execute_encoding r e w = None) \<and>
   ((\<forall>k<n. \<not> terminal (status (tasks r (polled w + k)))) \<and>
    terminal (status (tasks r (polled w + n))) \<longrightarrow>
      (\<exists>res w'. execute_encoding r e w = Some (res, w') \<and> polled w' = polled w + n + 1))"
proof (intro conjI impI)
  show iff: "(\<exists>y. execute_encoding r e w = Some y) =
      (\<exists>n. terminal (status (tasks r (polled w + n))))"
  proof
    assume "\<exists>y. execute_encoding r e w = Some y"
    then show "\<exists>n. terminal (status (tasks r (polled w + n)))"
      using execute_encoding_returns by blast
  next
    assume "\<exists>n. terminal (status (tasks r (polled w + n)))"
    then obtain n where "\<forall>k<n. \<not> terminal (status (tasks r (polled w + k)))"
      and "terminal (status (tasks r (polled w + n)))"
      by (rule first_terminal)
    then show "\<exists>y. execute_encoding r e w = Some y"
      using execute_encoding_first_terminal by blast
  qed
  show "execute_encoding r e w = None"
    if "\<forall>n. \<not> terminal (status (tasks r (polled w + n)))"
  proof (cases "execute_encoding r e w")
    case None
    then show ?thesis .
  next
    case (Some y)
    then have "\<exists>n. terminal (status (tasks r (polled w + n)))"
      by (rule execute_encoding_returns)
    with that show ?thesis by blast
  qed
  show "\<exists>res w'. execute_encoding r e w = Some (res, w') \<and> polled w' = polled w + n + 1"
    if "(\<forall>k<n. \<not> terminal (status (tasks r (polled w + k)))) \<and>
        terminal (status (tasks r (polled w + n)))"
  proof -
    have "execute_encoding r e w =
        Some (report (tasks r (polled w + n)) (after_polls r e (Suc n) (api_start e w)))"
      using that by (simp add: execute_encoding_first_terminal)
    moreover have "polled (snd (report (tasks r (polled w + n))
        (after_polls r e (Suc n) (api_start e w)))) = polled w + n + 1"
      by (simp add: report_polled after_polls_def api_start_def)
    ultimately show ?thesis
      by (metis prod.collapse)
  qed
qed

theorem execute_encoding_returns_iff_terminal_status_witness:
  "execute_encoding service0 ''enc'' world0 = None \<and>
   (\<exists>y. execute_encoding service_finishing ''enc'' world0 = Some y) \<and>
   (\<exists>res w'. execute_encoding service_finishing ''enc'' world0 = Some (res, w') \<and>
      polled w' = 3)"
proof -
  have never: "\<forall>n. \<not> terminal (status (tasks service0 (polled world0 + n)))"
    by (simp add: service0_def terminal_def)
  have some: "\<exists>n. terminal (status (tasks service_finishing (polled world0 + n)))"
  proof
    show "terminal (status (tasks service_finishing (polled world0 + 2)))"
      by (simp add: service_finishing_def terminal_def)
  qed
  have first: "(\<forall>k<2. \<not> terminal (status (tasks service_finishing (polled world0 + k)))) \<and>
      terminal (status (tasks service_finishing (polled world0 + 2)))"
    by (simp add: service_finishing_def terminal_def world0_def)
  have p0: "polled world0 = 0"
    by (simp add: world0_def)
  show ?thesis
    using execute_encoding_returns_iff_terminal_status [of service0 "''enc''" world0 0] never
      execute_encoding_returns_iff_terminal_status [of service_finishing "''enc''" world0 2] some first p0
    by (simp add: numeral_3_eq_3)
qed

subsection \<open>The first poll\<close>

lemma new_events_after_report:
  "take 3 (new_events w (snd (report task (after_polls r e (Suc n) (api_start e w))))) =
     [Started e, Slept 5, Status_requested e]"
  by (simp add: new_events_def report_eq after_polls_def api_start_def poll_events_def
      upt_conv_Cons del: upt_Suc)

text \<open>
  Claim C10. When the first status answer is already terminal, the runner reports on it
  after the start request and exactly one poll: one sleep of 5, one status request,
  the printed status line. Whenever the runner returns, at least one status has been
  fetched, and the events after the start request begin with the sleep of 5 and the
  status request.
\<close>

theorem execute_encoding_polls_before_reporting:
  "(terminal (status (tasks r (polled w))) \<longrightarrow>
      execute_encoding r e w =
        Some (report (tasks r (polled w))
          (w\<lparr>polled := polled w + 1,
             trace := trace w @
               [Started e, Slept 5, Status_requested e,
                Printed (Status_line (status (tasks r (polled w)))
                  (progress (tasks r (polled w))))]\<rparr>))) \<and>
   (\<forall>y. execute_encoding r e w = Some y \<longrightarrow>
      polled w < polled (snd y) \<and>
      take 3 (new_events w (snd y)) = [Started e, Slept 5, Status_requested e])"
proof (intro conjI impI allI)
  assume t: "terminal (status (tasks r (polled w)))"
  have "\<forall>k<0. \<not> terminal (status (tasks r (polled w + k)))" by simp
  moreover have "terminal (status (tasks r (polled w + 0)))" using t by simp
  ultimately have "execute_encoding r e w =
      Some (report (tasks r (polled w + 0)) (after_polls r e (Suc 0) (api_start e w)))"
    by (rule execute_encoding_first_terminal)
  then show "execute_encoding r e w =
        Some (report (tasks r (polled w))
          (w\<lparr>polled := polled w + 1,
             trace := trace w @
               [Started e, Slept 5, Status_requested e,
                Printed (Status_line (status (tasks r (polled w)))
                  (progress (tasks r (polled w))))]\<rparr>))"
    by (simp add: after_polls_def api_start_def poll_events_def)
next
  fix y
  assume y: "execute_encoding r e w = Some y"
  then have "\<exists>n. terminal (status (tasks r (polled w + n)))"
    by (rule execute_encoding_returns)
  then obtain n where "\<forall>k<n. \<not> terminal (status (tasks r (polled w + k)))"
    and "terminal (status (tasks r (polled w + n)))"
    by (rule first_terminal)
  then have "execute_encoding r e w =
      Some (report (tasks r (polled w + n)) (after_polls r e (Suc n) (api_start e w)))"
    by (rule execute_encoding_first_terminal)
  with y have y_eq: "y = report (tasks r (polled w + n)) (after_polls r e (Suc n) (api_start e w))"
    by simp
  show "polled w < polled (snd y)"
    by (simp add: y_eq report_polled after_polls_def api_start_def)
  show "take 3 (new_events w (snd y)) = [Started e, Slept 5, Status_requested e]"
    by (simp only: y_eq new_events_after_report)
qed

theorem execute_encoding_polls_before_reporting_witness:
  "execute_encoding service_done ''enc'' world0 =
     Some (Inr (),
       \<lparr>created = 0, polled = 1,
        trace = [Started ''enc'', Slept 5, Status_requested ''enc'',
                 Printed (Status_line FINISHED 100),
                 Printed (Text_line ''Encoding finished successfully'')]\<rparr>) \<and>
   polled world0 <
     polled \<lparr>created = 0, polled = 1,
        trace = [Started ''enc'', Slept 5, Status_requested ''enc'',
                 Printed (Status_line FINISHED 100),
                 Printed (Text_line ''Encoding finished successfully'')]\<rparr> \<and>
   take 3 (new_events world0
     \<lparr>created = 0, polled = 1,
        trace = [Started ''enc'', Slept 5, Status_requested ''enc'',
                 Printed (Status_line FINISHED 100),
                 Printed (Text_line ''Encoding finished successfully'')]\<rparr>) =
     [Started ''enc'', Slept 5, Status_requested ''enc'']"
proof -
  have t: "terminal (status (tasks service_done (polled world0)))"
    by (simp add: service_done_def terminal_def)
  have one: "execute_encoding service_done ''enc'' world0 =
     Some (Inr (),
       \<lparr>created = 0, polled = 1,
        trace = [Started ''enc'', Slept 5, Status_requested ''enc'',
                 Printed (Status_line FINISHED 100),
                 Printed (Text_line ''Encoding finished successfully'')]\<rparr>)"
    using execute_encoding_polls_before_reporting [of service_done world0 "''enc''"] t
    by (simp add: service_done_def world0_def report_eq)
  show ?thesis
    using one execute_encoding_polls_before_reporting [of service_done world0 "''enc''"] by simp
qed

end
